theory Spec2Isabelle
  imports Complex_Main "HOL-Library.Word"
begin

section \<open>Common ground: errors, tensors and floating-point operations\<close>

text \<open>
  The two modules verified here are \<^verbatim>\<open>neural_sp/models/modules/transformer.py\<close>
  and \<^verbatim>\<open>neural_sp/models/seq2seq/decoders/attention.py\<close>.

  A tensor of rank \<open>n\<close> is an \<open>n\<close>-fold nested list, outermost dimension first.
  A dimension of length zero is the empty list at its level, so the extents below an
  empty dimension are not recorded; wherever the source reads such an extent
  (\<^verbatim>\<open>xs.size(1)\<close> of a tensor without rows) the model reads 0.

  Every exception the code can raise is a value of \<open>error\<close>; a computation that may
  raise returns \<open>error + 'a\<close> with \<open>Inl\<close> for the exception. \<open>Unmodelled\<close> is not an
  exception: it marks the one place where the code goes on with a tensor whose rank
  the model's types cannot hold.
\<close>

datatype error =
    NotImplementedError
  | RuntimeError
  | ZeroDivisionError
  | ValueError
  | IndexError
  | AttributeError
  | UnboundLocalError
  | Unmodelled

definition and_then :: "error + 'a \<Rightarrow> ('a \<Rightarrow> error + 'b) \<Rightarrow> error + 'b" where
  "and_then r f = (case r of Inl e \<Rightarrow> Inl e | Inr v \<Rightarrow> f v)"

text \<open>Evaluate a list of computations from left to right; the first exception wins.\<close>

fun collect :: "(error + 'a) list \<Rightarrow> error + 'a list" where
  "collect [] = Inr []"
| "collect (r # rs) =
     (case r of Inl e \<Rightarrow> Inl e
      | Inr v \<Rightarrow> (case collect rs of Inl e \<Rightarrow> Inl e | Inr vs \<Rightarrow> Inr (v # vs)))"

text \<open>
  Floating-point arithmetic is not fixed by the model. The float32 operations of
  torch and the double operations of Python that the code uses are the fields of a
  record of operations over a type \<open>'f\<close> of tensor entries and a type \<open>'d\<close> of Python
  floats; every definition below takes the record as its first argument, and every
  theorem holds for all operations, rounded or not.
  \<^item> \<open>fl_of_nat n\<close>: the float32 entry holding the integer \<open>n\<close>
    (\<^verbatim>\<open>torch.zeros\<close>, \<^verbatim>\<open>torch.arange(..., dtype=torch.float32)\<close>, \<^verbatim>\<open>.float()\<close>);
  \<^item> \<open>fl_add\<close>, \<open>fl_mul\<close>: entry plus entry, entry times entry;
  \<^item> \<open>fl_mul_py x c\<close>: the entry \<open>x\<close> times the Python float \<open>c\<close>;
  \<^item> \<open>fl_exp\<close>, \<open>fl_sin\<close>, \<open>fl_cos\<close>, \<open>fl_relu\<close>: \<^verbatim>\<open>torch.exp\<close>, \<^verbatim>\<open>torch.sin\<close>,
    \<^verbatim>\<open>torch.cos\<close>, \<^verbatim>\<open>F.relu\<close> on one entry;
  \<^item> \<open>fl_dropout p keep x\<close>: what \<^verbatim>\<open>nn.Dropout(p)\<close> in training mode makes of the
    entry \<open>x\<close> when its Bernoulli draw is \<open>keep\<close>;
  \<^item> \<open>py_log\<close>, \<open>py_sqrt\<close>, \<open>py_div\<close>, \<open>py_neg\<close>: \<^verbatim>\<open>math.log\<close> of a literal,
    \<^verbatim>\<open>math.sqrt\<close> of a non-negative integer, a Python float divided by a non-zero
    integer, and its negation.
  Sizes are Python integers; where torch or Python rejects one, the model raises.
\<close>

record ('f, 'd) float_ops =
  fl_of_nat :: "nat \<Rightarrow> 'f"
  fl_add :: "'f \<Rightarrow> 'f \<Rightarrow> 'f"
  fl_mul :: "'f \<Rightarrow> 'f \<Rightarrow> 'f"
  fl_mul_py :: "'f \<Rightarrow> 'd \<Rightarrow> 'f"
  fl_exp :: "'f \<Rightarrow> 'f"
  fl_sin :: "'f \<Rightarrow> 'f"
  fl_cos :: "'f \<Rightarrow> 'f"
  fl_relu :: "'f \<Rightarrow> 'f"
  fl_dropout :: "real \<Rightarrow> bool \<Rightarrow> 'f \<Rightarrow> 'f"
  py_log :: "real \<Rightarrow> 'd"
  py_sqrt :: "nat \<Rightarrow> 'd"
  py_div :: "'d \<Rightarrow> nat \<Rightarrow> 'd"
  py_neg :: "'d \<Rightarrow> 'd"

text \<open>
  Broadcasting of a binary operation along one dimension, as torch does it for two
  tensors of the same rank: equal extents are paired, an extent of 1 is repeated, and
  anything else is a \<^verbatim>\<open>RuntimeError\<close>.
\<close>

definition broadcast2 :: "('a \<Rightarrow> 'b \<Rightarrow> error + 'c) \<Rightarrow> 'a list \<Rightarrow> 'b list \<Rightarrow> error + 'c list" where
  "broadcast2 f xs ys =
     (if length xs = length ys then collect (map2 f xs ys)
      else if length xs = 1 then collect (map (f (hd xs)) ys)
      else if length ys = 1 then collect (map (\<lambda>x. f x (hd ys)) xs)
      else Inl RuntimeError)"

definition tadd1 :: "('f \<Rightarrow> 'f \<Rightarrow> 'f) \<Rightarrow> 'f list \<Rightarrow> 'f list \<Rightarrow> error + 'f list" where
  "tadd1 add = broadcast2 (\<lambda>x y. Inr (add x y))"

definition tadd2 :: "('f \<Rightarrow> 'f \<Rightarrow> 'f) \<Rightarrow> 'f list list \<Rightarrow> 'f list list \<Rightarrow> error + 'f list list" where
  "tadd2 add = broadcast2 (tadd1 add)"

text \<open>\<^verbatim>\<open>a + b\<close> for two tensors of rank 3, with \<open>add\<close> on the entries.\<close>

definition tadd3 ::
  "('f \<Rightarrow> 'f \<Rightarrow> 'f) \<Rightarrow> 'f list list list \<Rightarrow> 'f list list list \<Rightarrow> error + 'f list list list" where
  "tadd3 add = broadcast2 (tadd2 add)"

text \<open>
  \<^verbatim>\<open>torch.cat([a, b], dim=-1)\<close> for tensors of rank 3. \<^verbatim>\<open>torch.cat\<close> does not
  broadcast: all extents except the last must agree.
\<close>

definition cat_last :: "'f list list list \<Rightarrow> 'f list list list \<Rightarrow> error + 'f list list list" where
  "cat_last a b =
     (if length a = length b \<and> list_all2 (\<lambda>x y. length x = length y) a b
      then Inr (map2 (map2 (@)) a b)
      else Inl RuntimeError)"

text \<open>
  \<^verbatim>\<open>t.expand(..., n, ...)\<close> along one dimension: an extent equal to \<open>n\<close> is kept, an
  extent of 1 is repeated \<open>n\<close> times, anything else is a \<^verbatim>\<open>RuntimeError\<close>.
\<close>

definition expand_dim :: "nat \<Rightarrow> 'a list \<Rightarrow> error + 'a list" where
  "expand_dim n xs =
     (if length xs = n then Inr xs
      else if length xs = 1 then Inr (replicate n (hd xs))
      else Inl RuntimeError)"

text \<open>\<^verbatim>\<open>t.size()[:2]\<close> of a tensor of rank at least 2.\<close>

definition size0 :: "'a list \<Rightarrow> nat" where
  "size0 xs = length xs"

definition size1 :: "'a list list \<Rightarrow> nat" where
  "size1 xs = (case xs of [] \<Rightarrow> 0 | x # _ \<Rightarrow> length x)"

text \<open>Python truthiness of an optional string: \<^verbatim>\<open>None\<close> and \<^verbatim>\<open>''\<close> are falsy.\<close>

definition truthy :: "string option \<Rightarrow> bool" where
  "truthy s = (case s of None \<Rightarrow> False | Some t \<Rightarrow> t \<noteq> [])"

section \<open>Layers of \<^verbatim>\<open>torch.nn\<close> used by the code\<close>

text \<open>
  \<^verbatim>\<open>nn.Dropout(p)\<close> rejects a probability outside \<open>[0, 1]\<close> with a
  \<^verbatim>\<open>ValueError\<close>. Applied to \<open>xs\<close> it returns \<open>xs\<close> itself in evaluation mode and
  for \<open>p = 0\<close>; otherwise every entry goes through \<open>fl_dropout\<close> with its own
  Bernoulli draw. The draws are an explicit argument: \<open>noise b t k\<close> tells whether the
  entry at index \<open>(b, t, k)\<close> is kept.
\<close>

type_synonym noise3 = "nat \<Rightarrow> nat \<Rightarrow> nat \<Rightarrow> bool"

definition nn_Dropout :: "real \<Rightarrow> error + real" where
  "nn_Dropout p = (if p < 0 \<or> 1 < p then Inl ValueError else Inr p)"


definition Dropout_forward ::
  "('f, 'd) float_ops \<Rightarrow> real \<Rightarrow> bool \<Rightarrow> noise3 \<Rightarrow> 'f list list list \<Rightarrow> 'f list list list" where
  "Dropout_forward ops p training noise xs =
     (if \<not> training \<or> p = 0 then xs
      else map (\<lambda>b. map (\<lambda>t. map (\<lambda>k. fl_dropout ops p (noise b t k) (xs ! b ! t ! k))
                                  [0..<length (xs ! b ! t)])
                         [0..<length (xs ! b)])
               [0..<length xs])"

text \<open>
  \<^verbatim>\<open>nn.Linear(in_features, out_features)\<close> acts on the last dimension, with the same
  weights at every position: \<open>lin_map\<close> is what it makes of one vector of length
  \<open>in_features\<close> (\<open>W x + b\<close> as torch computes it). An input whose last extent is not
  \<open>in_features\<close> is a \<^verbatim>\<open>RuntimeError\<close>. The map, whose weights torch initialises at
  random, is an argument of the constructor.
\<close>

record 'f Linear =
  in_features :: nat
  out_features :: nat
  lin_map :: "'f list \<Rightarrow> 'f list"

text \<open>The constructor allocates the weights, which fails for a negative size.\<close>

definition nn_Linear :: "int \<Rightarrow> int \<Rightarrow> ('f list \<Rightarrow> 'f list) \<Rightarrow> error + 'f Linear" where
  "nn_Linear n_in n_out f =
     (if n_in < 0 \<or> n_out < 0 then Inl RuntimeError
      else Inr \<lparr>in_features = nat n_in, out_features = nat n_out, lin_map = f\<rparr>)"

definition Linear_forward :: "'f Linear \<Rightarrow> 'f list list list \<Rightarrow> error + 'f list list list" where
  "Linear_forward l xs =
     (if list_all (list_all (\<lambda>x. length x = in_features l)) xs
      then Inr (map (map (lin_map l)) xs)
      else Inl RuntimeError)"

text \<open>\<^verbatim>\<open>F.relu\<close>, entry by entry.\<close>

definition relu :: "('f, 'd) float_ops \<Rightarrow> 'f list list list \<Rightarrow> 'f list list list" where
  "relu ops xs = map (map (map (fl_relu ops))) xs"

text \<open>
  \<^verbatim>\<open>nn.LayerNorm\<close> is a layer of the library; a block holds it as a function from
  a tensor of rank 3 to a tensor of rank 3 that may raise.
\<close>

type_synonym 'f layer3 = "'f list list list \<Rightarrow> error + 'f list list list"


section \<open>\<^verbatim>\<open>PositionalEncoding\<close>\<close>

text \<open>
  The buffer \<open>pe\<close> and the dropout layer exist only when \<open>pe_type\<close> was truthy at
  construction; reading a missing attribute is an \<^verbatim>\<open>AttributeError\<close>.
  \<open>pe_training\<close> is the module's \<^verbatim>\<open>training\<close> flag.
\<close>

record 'f PositionalEncoding =
  pe_d_model :: int
  pe_type :: "string option"
  pe :: "'f list list list option"
  pe_dropout :: "real option"
  pe_training :: bool

text \<open>\<^verbatim>\<open>torch.arange(0, d, 2)\<close>.\<close>

definition arange2 :: "nat \<Rightarrow> nat list" where
  "arange2 d = map (\<lambda>i. 2 * i) [0..<(d + 1) div 2]"

text \<open>
  \<^verbatim>\<open>tgt[:, s::2] = val\<close> for a target of width \<open>d\<close> and a value with \<open>k\<close> columns and
  as many rows as the target. The slice has \<open>(d + 1 - s) div 2\<close> columns; the value is
  broadcast to it (\<open>k\<close> equal, or \<open>k = 1\<close>), and any other \<open>k\<close> is a
  \<^verbatim>\<open>RuntimeError\<close>.
\<close>

definition assign_row :: "nat \<Rightarrow> 'f list \<Rightarrow> 'f list \<Rightarrow> 'f list" where
  "assign_row s row v =
     map (\<lambda>j. if s \<le> j \<and> (j - s) mod 2 = 0 then v ! ((j - s) div 2) else row ! j)
         [0..<length row]"

definition assign_stride ::
  "nat \<Rightarrow> nat \<Rightarrow> 'f list list \<Rightarrow> nat \<Rightarrow> 'f list list \<Rightarrow> error + 'f list list" where
  "assign_stride s d tgt k val =
     (let n = (d + 1 - s) div 2
      in if k = n then Inr (map2 (assign_row s) tgt val)
         else if k = 1 then Inr (map2 (\<lambda>row v. assign_row s row (replicate n (hd v))) tgt val)
         else Inl RuntimeError)"

text \<open>
  The entry of \<^verbatim>\<open>div_term\<close> for the even index \<open>k\<close>, line 43:
  \<^verbatim>\<open>exp(k * -(math.log(10000.0) / d_model))\<close>, with \<open>k\<close> converted by \<^verbatim>\<open>.float()\<close>.
\<close>

definition div_term_entry :: "('f, 'd) float_ops \<Rightarrow> nat \<Rightarrow> nat \<Rightarrow> 'f" where
  "div_term_entry ops d_model k =
     fl_exp ops (fl_mul_py ops (fl_of_nat ops k)
                   (py_neg ops (py_div ops (py_log ops 10000) d_model)))"

text \<open>
  \<^verbatim>\<open>torch.zeros(max_len, d_model)\<close> comes first and rejects a negative size; the
  division by \<open>d_model\<close> in line 43 comes next.
\<close>

definition PositionalEncoding_init ::
  "('f, 'd) float_ops \<Rightarrow> int \<Rightarrow> real \<Rightarrow> string option \<Rightarrow> int \<Rightarrow> error + 'f PositionalEncoding" where
  "PositionalEncoding_init ops d_model dropout ptype max_len =
     (if truthy ptype then
        (if max_len < 0 \<or> d_model < 0 then Inl RuntimeError
         else
           (let d = nat d_model;
                pe0 = replicate (nat max_len) (replicate d (fl_of_nat ops 0));
                position = map (fl_of_nat ops) [0..<nat max_len]
            in if d_model = 0 then Inl ZeroDivisionError
               else
                 (let div_term = map (div_term_entry ops d) (arange2 d);
                      k = length div_term
                  in and_then (assign_stride 0 d pe0 k
                                 (map (\<lambda>pos. map (\<lambda>dt. fl_sin ops (fl_mul ops pos dt)) div_term) position))
                       (\<lambda>pe1. and_then (assign_stride 1 d pe1 k
                                          (map (\<lambda>pos. map (\<lambda>dt. fl_cos ops (fl_mul ops pos dt)) div_term) position))
                       (\<lambda>pe2. and_then (nn_Dropout dropout)
                       (\<lambda>p. Inr \<lparr>pe_d_model = d_model, pe_type = ptype, pe = Some [pe2],
                                 pe_dropout = Some p, pe_training = True\<rparr>))))))
      else Inr \<lparr>pe_d_model = d_model, pe_type = ptype, pe = None,
                pe_dropout = None, pe_training = True\<rparr>)"

text \<open>\<^verbatim>\<open>self.pe[:, :n]\<close>.\<close>

definition pe_slice :: "nat \<Rightarrow> 'f list list list \<Rightarrow> 'f list list list" where
  "pe_slice n tbl = map (take n) tbl"

text \<open>\<^verbatim>\<open>xs * c\<close> for a Python float \<open>c\<close>.\<close>

definition scale3 :: "('f, 'd) float_ops \<Rightarrow> 'd \<Rightarrow> 'f list list list \<Rightarrow> 'f list list list" where
  "scale3 ops c xs = map (map (map (\<lambda>v. fl_mul_py ops v c))) xs"

definition PositionalEncoding_forward ::
  "('f, 'd) float_ops \<Rightarrow> 'f PositionalEncoding \<Rightarrow> noise3 \<Rightarrow> 'f list list list
   \<Rightarrow> error + 'f list list list" where
  "PositionalEncoding_forward ops m noise xs0 =
     (if pe_d_model m < 0 then Inl ValueError
      else
      let xs = scale3 ops (py_sqrt ops (nat (pe_d_model m))) xs0
      in if \<not> truthy (pe_type m) then Inr xs
         else
           and_then
             (if pe_type m = Some ''add'' then
                (case pe m of None \<Rightarrow> Inl AttributeError
                 | Some tbl \<Rightarrow> tadd3 (fl_add ops) xs (pe_slice (size1 xs) tbl))
              else if pe_type m = Some ''concat'' then
                (case pe m of None \<Rightarrow> Inl AttributeError
                 | Some tbl \<Rightarrow> cat_last xs (pe_slice (size1 xs) tbl))
              else Inl NotImplementedError)
             (\<lambda>ys. case pe_dropout m of None \<Rightarrow> Inl AttributeError
                   | Some p \<Rightarrow> Inr (Dropout_forward ops p (pe_training m) noise ys)))"

section \<open>\<^verbatim>\<open>PositionwiseFeedForward\<close>\<close>

record 'f PositionwiseFeedForward =
  w_1 :: "'f Linear"
  w_2 :: "'f Linear"
  ff_dropout :: real
  ff_training :: bool

definition PositionwiseFeedForward_init ::
  "int \<Rightarrow> int \<Rightarrow> real \<Rightarrow> ('f list \<Rightarrow> 'f list) \<Rightarrow> ('f list \<Rightarrow> 'f list)
   \<Rightarrow> error + 'f PositionwiseFeedForward" where
  "PositionwiseFeedForward_init d_model d_ff dropout f1 f2 =
     and_then (nn_Linear d_model d_ff f1)
       (\<lambda>l1. and_then (nn_Linear d_ff d_model f2)
       (\<lambda>l2. and_then (nn_Dropout dropout)
       (\<lambda>p. Inr \<lparr>w_1 = l1, w_2 = l2, ff_dropout = p, ff_training = True\<rparr>)))"

definition PositionwiseFeedForward_forward ::
  "('f, 'd) float_ops \<Rightarrow> 'f PositionwiseFeedForward \<Rightarrow> noise3 \<Rightarrow> 'f list list list
   \<Rightarrow> error + 'f list list list" where
  "PositionwiseFeedForward_forward ops m noise xs =
     and_then (Linear_forward (w_1 m) xs)
       (\<lambda>h. Linear_forward (w_2 m)
               (Dropout_forward ops (ff_dropout m) (ff_training m) noise (relu ops h)))"

section \<open>Masks of the transformer blocks\<close>

text \<open>
  Masks are byte tensors. \<^verbatim>\<open>make_pad_mask\<close> (of \<^verbatim>\<open>neural_sp.models.torch_utils\<close>)
  and \<^verbatim>\<open>MultiheadAttentionMechanism\<close> are not part of the sources at hand; both are
  parameters of the model. \<^verbatim>\<open>make_pad_mask\<close> maps the lengths to a byte tensor of
  rank 2 or raises; the attention layer is a state \<open>'s\<close> with its \<^verbatim>\<open>reset\<close> and its
  \<^verbatim>\<open>forward(key, value, query, mask)\<close>, which returns the attended values and the
  attention weights \<open>'w\<close>, or raises, and the next state. The device argument of
  \<^verbatim>\<open>make_pad_mask\<close> only places the tensor and is left out.
\<close>

type_synonym byte = "8 word"

type_synonym pad_mask_fn = "int list option \<Rightarrow> error + byte list list"

record ('f, 's, 'w) attention_layer =
  mha_reset :: "'s \<Rightarrow> 's"
  mha_forward ::
    "'s \<Rightarrow> 'f list list list \<Rightarrow> 'f list list list \<Rightarrow> 'f list list list
     \<Rightarrow> byte list list list list \<Rightarrow> (error + 'f list list list \<times> 'w) \<times> 's"

text \<open>\<^verbatim>\<open>m.unsqueeze(1).expand(bs, rows, cols)\<close> for \<open>m\<close> of rank 2.\<close>

definition unsqueeze1_expand :: "nat \<Rightarrow> nat \<Rightarrow> nat \<Rightarrow> byte list list \<Rightarrow> error + byte list list list" where
  "unsqueeze1_expand bs rows cols m =
     and_then (collect (map (expand_dim cols) m))
       (\<lambda>m1. and_then (expand_dim bs m1)
       (\<lambda>m2. Inr (map (replicate rows) m2)))"

text \<open>\<^verbatim>\<open>m.unsqueeze(2).expand(bs, rows, cols)\<close> for \<open>m\<close> of rank 2.\<close>

definition unsqueeze2_expand :: "nat \<Rightarrow> nat \<Rightarrow> nat \<Rightarrow> byte list list \<Rightarrow> error + byte list list list" where
  "unsqueeze2_expand bs rows cols m =
     and_then (collect (map (expand_dim rows) m))
       (\<lambda>m1. and_then (expand_dim bs m1)
       (\<lambda>m2. Inr (map (map (replicate cols)) m2)))"

text \<open>\<^verbatim>\<open>m.unsqueeze(1).expand(bs, n_heads, rows, cols)\<close> for \<open>m\<close> of shape \<open>[bs, rows, cols]\<close>.\<close>

definition expand_heads :: "nat \<Rightarrow> 'a list \<Rightarrow> 'a list list" where
  "expand_heads n_heads m = map (replicate n_heads) m"

text \<open>\<^verbatim>\<open>torch.tril(ones((n, n)).byte(), diagonal=0)\<close>.\<close>

definition tril_ones :: "nat \<Rightarrow> byte list list" where
  "tril_ones n = map (\<lambda>i. map (\<lambda>j. if j \<le> i then 1 else 0) [0..<n]) [0..<n]"

text \<open>Entry-wise \<^verbatim>\<open>a & b\<close> and \<^verbatim>\<open>a * b\<close> of byte tensors of one shape.\<close>

definition and4 :: "byte list list list list \<Rightarrow> byte list list list list \<Rightarrow> byte list list list list" where
  "and4 a b = map2 (map2 (map2 (map2 (\<lambda>x y. and x y)))) a b"

definition mul3 :: "byte list list list \<Rightarrow> byte list list list \<Rightarrow> byte list list list" where
  "mul3 a b = map2 (map2 (map2 (\<lambda>x y. x * y))) a b"


text \<open>Lines 244--248: the self-attention mask of the decoder block.\<close>

definition TransformerDecoderBlock_yy_mask ::
  "pad_mask_fn \<Rightarrow> nat \<Rightarrow> nat \<Rightarrow> nat \<Rightarrow> int list option \<Rightarrow> error + byte list list list list" where
  "TransformerDecoderBlock_yy_mask make_pad_mask n_heads bs ymax ylens =
     and_then (make_pad_mask ylens)
       (\<lambda>m. and_then (unsqueeze1_expand bs ymax ymax m)
       (\<lambda>yy_mask0.
          let yy_mask = expand_heads n_heads yy_mask0;
              subsequent_mask = replicate bs (replicate n_heads (tril_ones ymax))
          in Inr (and4 yy_mask subsequent_mask)))"

text \<open>Lines 264--266: the source-target mask of the decoder block.\<close>

definition TransformerDecoderBlock_xy_mask ::
  "pad_mask_fn \<Rightarrow> nat \<Rightarrow> nat \<Rightarrow> nat \<Rightarrow> nat \<Rightarrow> int list option \<Rightarrow> int list option
   \<Rightarrow> error + byte list list list list" where
  "TransformerDecoderBlock_xy_mask make_pad_mask n_heads bs ymax xmax xlens ylens =
     and_then (make_pad_mask xlens)
       (\<lambda>mx. and_then (unsqueeze1_expand bs ymax xmax mx)
       (\<lambda>x_mask. and_then (make_pad_mask ylens)
       (\<lambda>my. and_then (unsqueeze2_expand bs ymax xmax my)
       (\<lambda>y_mask. Inr (expand_heads n_heads (mul3 x_mask y_mask))))))"

section \<open>\<^verbatim>\<open>TransformerEncoderBlock\<close>\<close>



section \<open>\<^verbatim>\<open>TransformerDecoderBlock\<close>\<close>

text \<open>
  The layers of the source-target attention exist only when \<open>src_attention\<close> was set
  at construction.
\<close>

record ('f, 's) TransformerDecoderBlock =
  dec_attn_type :: string
  dec_n_heads :: nat
  dec_src_attention :: bool
  dec_self_attn :: 's
  dec_norm1 :: "'f layer3"
  dec_dropout1 :: real
  dec_src_attn :: "'s option"
  dec_norm2 :: "'f layer3 option"
  dec_dropout2 :: "real option"
  dec_feed_forward :: "'f PositionwiseFeedForward"
  dec_norm3 :: "'f layer3"
  dec_dropout3 :: real
  dec_training :: bool


text \<open>
  The source-target attention sublayer, lines 261--271. \<open>xs = None\<close> is the default
  argument \<^verbatim>\<open>xs=None\<close>, on which \<^verbatim>\<open>xs.size(1)\<close> is an \<^verbatim>\<open>AttributeError\<close>.
\<close>

definition TransformerDecoderBlock_src ::
  "('f, 'd) float_ops \<Rightarrow> ('f, 's, 'w) attention_layer \<Rightarrow> pad_mask_fn
   \<Rightarrow> ('f, 's) TransformerDecoderBlock
   \<Rightarrow> noise3 \<Rightarrow> nat \<Rightarrow> nat \<Rightarrow> 'f list list list \<Rightarrow> int list option
   \<Rightarrow> 'f list list list option \<Rightarrow> int list option
   \<Rightarrow> (error + 'f list list list \<times> 'w option) \<times> ('f, 's) TransformerDecoderBlock" where
  "TransformerDecoderBlock_src ops attn make_pad_mask blk noise2 bs ymax ys ylens xs xlens =
     (if dec_src_attention blk then
        (case xs of None \<Rightarrow> (Inl AttributeError, blk)
         | Some xs' \<Rightarrow>
             (case TransformerDecoderBlock_xy_mask make_pad_mask (dec_n_heads blk) bs ymax (size1 xs') xlens ylens of
                Inl e \<Rightarrow> (Inl e, blk)
              | Inr xy_mask \<Rightarrow>
                  (case (dec_src_attn blk, dec_norm2 blk, dec_dropout2 blk) of
                     (Some st, Some norm2, Some p2) \<Rightarrow>
                       (let st1 = mha_reset attn st; blk1 = blk\<lparr>dec_src_attn := Some st1\<rparr>
                        in case norm2 ys of
                             Inl e \<Rightarrow> (Inl e, blk1)
                           | Inr n2 \<Rightarrow>
                               (case mha_forward attn st1 xs' xs' n2 xy_mask of
                                  (Inl e, st2) \<Rightarrow> (Inl e, blk\<lparr>dec_src_attn := Some st2\<rparr>)
                                | (Inr (a, xy_aw), st2) \<Rightarrow>
                                    (and_then (tadd3 (fl_add ops)
                                                 (Dropout_forward ops p2 (dec_training blk) noise2 a) ys)
                                       (\<lambda>ys1. Inr (ys1, Some xy_aw)),
                                     blk\<lparr>dec_src_attn := Some st2\<rparr>)))
                   | _ \<Rightarrow> (Inl AttributeError, blk))))
      else (Inr (ys, None), blk))"

definition TransformerDecoderBlock_forward ::
  "('f, 'd) float_ops \<Rightarrow> ('f, 's, 'w) attention_layer \<Rightarrow> pad_mask_fn
   \<Rightarrow> ('f, 's) TransformerDecoderBlock
   \<Rightarrow> noise3 \<Rightarrow> noise3 \<Rightarrow> noise3 \<Rightarrow> noise3
   \<Rightarrow> 'f list list list \<Rightarrow> int list option \<Rightarrow> 'f list list list option \<Rightarrow> int list option
   \<Rightarrow> (error + 'f list list list \<times> 'w \<times> 'w option) \<times> ('f, 's) TransformerDecoderBlock" where
  "TransformerDecoderBlock_forward ops attn make_pad_mask blk noise1 noise2 noise_ff noise3 ys ylens xs xlens =
     (let bs = size0 ys; ymax = size1 ys
      in case TransformerDecoderBlock_yy_mask make_pad_mask (dec_n_heads blk) bs ymax ylens of
           Inl e \<Rightarrow> (Inl e, blk)
         | Inr yy_mask \<Rightarrow>
             if dec_attn_type blk = ''average'' then (Inl NotImplementedError, blk)
             else
               (let st1 = mha_reset attn (dec_self_attn blk); blk1 = blk\<lparr>dec_self_attn := st1\<rparr>
                in case dec_norm1 blk ys of
                     Inl e \<Rightarrow> (Inl e, blk1)
                   | Inr n1 \<Rightarrow>
                       (case mha_forward attn st1 n1 n1 n1 yy_mask of
                          (Inl e, st2) \<Rightarrow> (Inl e, blk\<lparr>dec_self_attn := st2\<rparr>)
                        | (Inr (a, yy_aw), st2) \<Rightarrow>
                            (let blk2 = blk\<lparr>dec_self_attn := st2\<rparr>
                             in case tadd3 (fl_add ops)
                                       (Dropout_forward ops (dec_dropout1 blk) (dec_training blk) noise1 a) ys of
                                  Inl e \<Rightarrow> (Inl e, blk2)
                                | Inr ys1 \<Rightarrow>
                                    (case TransformerDecoderBlock_src ops attn make_pad_mask blk2 noise2 bs ymax ys1 ylens xs xlens of
                                       (Inl e, blk3) \<Rightarrow> (Inl e, blk3)
                                     | (Inr (ys2, xy_aw), blk3) \<Rightarrow>
                                         (and_then (dec_norm3 blk ys2)
                                            (\<lambda>n3. and_then (PositionwiseFeedForward_forward ops (dec_feed_forward blk) noise_ff n3)
                                            (\<lambda>f. and_then (tadd3 (fl_add ops)
                                                             (Dropout_forward ops (dec_dropout3 blk) (dec_training blk) noise3 f) ys2)
                                            (\<lambda>ys3. Inr (ys3, yy_aw, xy_aw)))),
                                          blk3))))))"


section \<open>\<^verbatim>\<open>AttentionMechanism\<close>\<close>

text \<open>
  The float operations that \<^verbatim>\<open>attention.py\<close> uses, over a type \<open>'f\<close> of tensor
  entries and a type \<open>'p\<close> for the Python number \<open>sharpening_factor\<close>:
  \<^item> \<open>at_zero\<close>, \<open>at_one\<close>, \<open>at_neg_inf\<close>: the entries \<^verbatim>\<open>0.\<close>, \<^verbatim>\<open>1.\<close> and
    \<^verbatim>\<open>-float('inf')\<close>;
  \<^item> \<open>at_is_zero x\<close>: the comparison \<^verbatim>\<open>x == 0\<close>; \<open>at_finite x\<close>: \<open>x\<close> is neither an
    infinity nor a NaN (used in statements only);
  \<^item> \<open>at_add\<close>: entry plus entry; \<open>at_scale x c\<close>: the entry \<open>x\<close> times the Python
    number \<open>c\<close>;
  \<^item> \<open>at_tanh\<close>, \<open>at_sigmoid\<close>: \<^verbatim>\<open>F.tanh\<close> and \<^verbatim>\<open>F.sigmoid\<close> on one entry;
  \<^item> \<open>at_softmax\<close>: \<^verbatim>\<open>F.softmax\<close> on one row;
  \<^item> \<open>at_dot\<close>: the inner product of two vectors as \<^verbatim>\<open>torch.matmul\<close> computes it;
  \<^item> \<open>at_dropout p keep x\<close>: as \<open>fl_dropout\<close>.
\<close>

record ('f, 'p) attn_ops =
  at_zero :: 'f
  at_one :: 'f
  at_neg_inf :: 'f
  at_is_zero :: "'f \<Rightarrow> bool"
  at_finite :: "'f \<Rightarrow> bool"
  at_add :: "'f \<Rightarrow> 'f \<Rightarrow> 'f"
  at_scale :: "'f \<Rightarrow> 'p \<Rightarrow> 'f"
  at_tanh :: "'f \<Rightarrow> 'f"
  at_sigmoid :: "'f \<Rightarrow> 'f"
  at_softmax :: "'f list \<Rightarrow> 'f list"
  at_dot :: "'f list \<Rightarrow> 'f list \<Rightarrow> 'f"
  at_dropout :: "real \<Rightarrow> bool \<Rightarrow> 'f \<Rightarrow> 'f"

text \<open>
  \<^verbatim>\<open>LinearND\<close> (of \<^verbatim>\<open>neural_sp.models.linear\<close>) is not part of the sources at hand:
  each of \<open>w_enc\<close>, \<open>w_dec\<close>, \<open>w_conv\<close> and \<open>v\<close> is a function from a tensor of rank 3
  to a tensor of rank 3 that may raise. \<open>conv\<close> stands for the \<^verbatim>\<open>nn.Conv2d\<close> layer
  together with the reshaping around it: it takes the rows of
  \<^verbatim>\<open>aw_step.view(bs, 1, 1, enc_time)\<close> and returns
  \<^verbatim>\<open>self.conv(...).squeeze(2)\<close>, of shape \<open>[B, conv_out_channels, T]\<close>.
  A layer exists only if the constructor made it for the \<open>attn_type\<close> it was given;
  reading a missing one is an \<^verbatim>\<open>AttributeError\<close>. The fields carry the names of
  the attributes with the prefix \<open>am_\<close>; \<open>am_training\<close> is the module's
  \<^verbatim>\<open>training\<close> flag.
\<close>

record ('f, 'p) AttentionMechanism =
  am_attn_type :: string
  am_attn_dim :: int
  am_sharpening_factor :: 'p
  am_sigmoid_smoothing :: bool
  am_nheads :: nat
  am_enc_out_a :: "'f list list list option"
  am_mask :: "'f list list option"
  am_dropout :: "real option"
  am_w_enc :: "'f layer3 option"
  am_w_dec :: "'f layer3 option"
  am_w_conv :: "'f layer3 option"
  am_conv :: "('f list list \<Rightarrow> error + 'f list list list) option"
  am_v :: "'f layer3 option"
  am_training :: bool

text \<open>
  \<open>new_linear name n_in n_out bias\<close> stands for the constructor
  \<^verbatim>\<open>LinearND(n_in, n_out, bias=bias)\<close> of the layer stored under \<open>name\<close>, and
  \<open>new_conv out_channels kernel_size\<close> for the \<^verbatim>\<open>nn.Conv2d\<close> of lines 83--88.
\<close>

definition AttentionMechanism_init ::
  "(string \<Rightarrow> int \<Rightarrow> int \<Rightarrow> bool \<Rightarrow> error + 'f layer3)
   \<Rightarrow> (int \<Rightarrow> int \<Rightarrow> error + ('f list list \<Rightarrow> error + 'f list list list))
   \<Rightarrow> int \<Rightarrow> int \<Rightarrow> string \<Rightarrow> int \<Rightarrow> 'p \<Rightarrow> bool \<Rightarrow> int \<Rightarrow> int \<Rightarrow> real
   \<Rightarrow> error + ('f, 'p) AttentionMechanism" where
  "AttentionMechanism_init new_linear new_conv enc_nunits dec_nunits atype adim sharpening smoothing
       conv_out_channels conv_kernel_size p =
     and_then (if p > 0 then and_then (nn_Dropout p) (\<lambda>q. Inr (Some q)) else Inr None)
       (\<lambda>drop.
          let m = \<lparr>am_attn_type = atype, am_attn_dim = adim, am_sharpening_factor = sharpening,
                   am_sigmoid_smoothing = smoothing, am_nheads = 1, am_enc_out_a = None, am_mask = None,
                   am_dropout = drop, am_w_enc = None, am_w_dec = None, am_w_conv = None, am_conv = None,
                   am_v = None, am_training = True\<rparr>
          in if atype = ''add'' then
               and_then (new_linear ''w_enc'' enc_nunits adim True)
                 (\<lambda>we. and_then (new_linear ''w_dec'' dec_nunits adim False)
                 (\<lambda>wd. and_then (new_linear ''v'' adim 1 False)
                 (\<lambda>vv. Inr (m\<lparr>am_w_enc := Some we, am_w_dec := Some wd, am_v := Some vv\<rparr>))))
             else if atype = ''location'' then
               and_then (new_linear ''w_enc'' enc_nunits adim True)
                 (\<lambda>we. and_then (new_linear ''w_dec'' dec_nunits adim False)
                 (\<lambda>wd. and_then (new_linear ''w_conv'' conv_out_channels adim False)
                 (\<lambda>wc. and_then (new_conv conv_out_channels conv_kernel_size)
                 (\<lambda>cv. and_then (new_linear ''v'' adim 1 False)
                 (\<lambda>vv. Inr (m\<lparr>am_w_enc := Some we, am_w_dec := Some wd, am_w_conv := Some wc,
                               am_conv := Some cv, am_v := Some vv\<rparr>))))))
             else if atype = ''dot'' then
               and_then (new_linear ''w_enc'' enc_nunits adim False)
                 (\<lambda>we. and_then (new_linear ''w_dec'' dec_nunits adim False)
                 (\<lambda>wd. Inr (m\<lparr>am_w_enc := Some we, am_w_dec := Some wd\<rparr>)))
             else if atype = ''luong_dot'' then Inl NotImplementedError
             else if atype = ''luong_general'' then Inl NotImplementedError
             else if atype = ''luong_concat'' then Inl NotImplementedError
             else Inr m)"


text \<open>
  The start of the Python slice \<^verbatim>\<open>[x:]\<close> on a dimension of extent \<open>n\<close>: a negative
  \<open>x\<close> counts from the end, and the result is clipped to \<open>0 .. n\<close>.
\<close>

definition slice_start :: "nat \<Rightarrow> int \<Rightarrow> nat" where
  "slice_start n x = (if x < 0 then nat (int n + x) else min (nat x) n)"

text \<open>\<^verbatim>\<open>row[x:] = 0\<close>.\<close>

definition zero_from :: "('f, 'p) attn_ops \<Rightarrow> int \<Rightarrow> 'f list \<Rightarrow> 'f list" where
  "zero_from ops x row =
     map (\<lambda>t. if slice_start (length row) x \<le> t then at_zero ops else row ! t) [0..<length row]"

text \<open>
  The loop of lines 133--135 over the batch indices still to do. \<open>x_lens[b]\<close> is an
  \<^verbatim>\<open>IndexError\<close> when the list is too short; the mask built so far stays in
  \<^verbatim>\<open>self.mask\<close>, which was assigned before the loop.
\<close>

fun mask_loop ::
  "('f, 'p) attn_ops \<Rightarrow> nat \<Rightarrow> int list \<Rightarrow> nat list \<Rightarrow> 'f list list \<Rightarrow> error option \<times> 'f list list" where
  "mask_loop ops enc_time x_lens [] msk = (None, msk)"
| "mask_loop ops enc_time x_lens (b # bs) msk =
     (if b < length x_lens then
        (if x_lens ! b < int enc_time
         then mask_loop ops enc_time x_lens bs (msk[b := zero_from ops (x_lens ! b) (msk ! b)])
         else mask_loop ops enc_time x_lens bs msk)
      else (Some IndexError, msk))"

text \<open>
  What the loop makes of a row of ones for the length \<open>x\<close>: ones before the start of
  the slice and zeros from there on, or all ones when \<open>x\<close> is not below \<open>enc_time\<close>.
  The statements about the mask are written with it.
\<close>

definition padding_row :: "('f, 'p) attn_ops \<Rightarrow> nat \<Rightarrow> int \<Rightarrow> 'f list" where
  "padding_row ops enc_time x =
     (if x < int enc_time
      then map (\<lambda>t. if slice_start enc_time x \<le> t then at_zero ops else at_one ops) [0..<enc_time]
      else replicate enc_time (at_one ops))"


text \<open>\<^verbatim>\<open>dec_out.expand_as(torch.zeros((bs, enc_time, dec_out.size(2))))\<close>.\<close>

definition expand_as3 :: "nat \<Rightarrow> nat \<Rightarrow> 'f list list list \<Rightarrow> error + 'f list list list" where
  "expand_as3 bs enc_time dec_out =
     and_then (collect (map (expand_dim enc_time) dec_out)) (expand_dim bs)"

text \<open>
  \<^verbatim>\<open>t.squeeze(2)\<close> for \<open>t\<close> of rank 3: a last extent of 1 is removed. With any other
  last extent \<open>t\<close> is returned as it is, of rank 3, and the code goes on with it; the
  model, whose energy has rank 2, stops there.
\<close>

definition squeeze2 :: "'f list list list \<Rightarrow> error + 'f list list" where
  "squeeze2 t =
     (if list_all (list_all (\<lambda>r. length r = 1)) t then Inr (map (map hd) t) else Inl Unmodelled)"

text \<open>
  \<^verbatim>\<open>torch.matmul(a, w.transpose(-2, -1))\<close> for \<open>a\<close> of shape \<open>[B, T, A]\<close> and \<open>w\<close> of
  shape \<open>[B, L, A]\<close>: entry \<open>[b, t, l]\<close> is the inner product of \<open>a[b, t]\<close> and
  \<open>w[b, l]\<close>. The batch extents are broadcast; vectors of different lengths are a
  \<^verbatim>\<open>RuntimeError\<close>.
\<close>

definition matmul_nt ::
  "('f, 'p) attn_ops \<Rightarrow> 'f list list list \<Rightarrow> 'f list list list \<Rightarrow> error + 'f list list list" where
  "matmul_nt ops a w =
     broadcast2
       (\<lambda>ab wb. if list_all (\<lambda>x. list_all (\<lambda>y. length x = length y) wb) ab
                then Inr (map (\<lambda>x. map (\<lambda>y. at_dot ops x y) wb) ab)
                else Inl RuntimeError)
       a w"

text \<open>\<^verbatim>\<open>F.tanh\<close>, entry by entry.\<close>

definition tanh3 :: "('f, 'p) attn_ops \<Rightarrow> 'f list list list \<Rightarrow> 'f list list list" where
  "tanh3 ops t = map (map (map (at_tanh ops))) t"











text \<open>
  The energy as the claim about the scoring functions words it, with
  \<^verbatim>\<open>w_enc(enc_out)\<close> computed from the \<^verbatim>\<open>enc_out\<close> of the call:
  \<^verbatim>\<open>v(tanh(w_enc(enc_out) + w_dec(dec_out)))\<close> with \<^verbatim>\<open>dec_out\<close> broadcast for
  \<^verbatim>\<open>'add'\<close>, and \<^verbatim>\<open>matmul(w_enc(enc_out), w_dec(dec_out)^T)\<close> for \<^verbatim>\<open>'dot'\<close>,
  squeezed to \<open>[B, T]\<close>. It is compared with \<open>AttentionMechanism_energy\<close> below.
\<close>

definition energy_as_claimed ::
  "('f, 'p) attn_ops \<Rightarrow> ('f, 'p) AttentionMechanism \<Rightarrow> 'f list list list \<Rightarrow> 'f list list list
   \<Rightarrow> error + 'f list list" where
  "energy_as_claimed ops m enc_out dec_out =
     (case (am_w_enc m, am_w_dec m) of
        (Some we, Some wd) \<Rightarrow>
          and_then (we enc_out)
            (\<lambda>e. if am_attn_type m = ''add'' then
                    (case am_v m of
                       None \<Rightarrow> Inl AttributeError
                     | Some vv \<Rightarrow>
                         and_then (expand_as3 (size0 enc_out) (size1 enc_out) dec_out)
                           (\<lambda>d. and_then (wd d)
                           (\<lambda>x. and_then (tadd3 (at_add ops) e x)
                           (\<lambda>s. and_then (vv (tanh3 ops s)) squeeze2))))
                  else if am_attn_type m = ''dot'' then
                    and_then (wd dec_out) (\<lambda>x. and_then (matmul_nt ops e x) squeeze2)
                  else Inl Unmodelled)
      | _ \<Rightarrow> Inl AttributeError)"


section \<open>Two sets of operations for the examples\<close>

text \<open>
  \<open>symbolic_ops\<close> builds the expression an entry is computed by instead of a number:
  an example stated with it says which float32 operations the code applies to which
  arguments, and holds whatever their rounding.
\<close>

datatype pyexpr =
    PyLog real
  | PySqrt nat
  | PyDiv pyexpr nat
  | PyNeg pyexpr

datatype f32expr =
    F32 nat
  | F32Add f32expr f32expr
  | F32Mul f32expr f32expr
  | F32MulPy f32expr pyexpr
  | F32Exp f32expr
  | F32Sin f32expr
  | F32Cos f32expr
  | F32Relu f32expr
  | F32Dropout real bool f32expr

definition symbolic_ops :: "(f32expr, pyexpr) float_ops" where
  "symbolic_ops =
     \<lparr>fl_of_nat = F32, fl_add = F32Add, fl_mul = F32Mul, fl_mul_py = F32MulPy,
      fl_exp = F32Exp, fl_sin = F32Sin, fl_cos = F32Cos, fl_relu = F32Relu,
      fl_dropout = F32Dropout,
      py_log = PyLog, py_sqrt = PySqrt, py_div = PyDiv, py_neg = PyNeg\<rparr>"

text \<open>
  \<open>exact_ops\<close> computes without rounding. On the small integers of the examples that
  use it every float32 operation involved is exact, so float32 computes the same
  values.
\<close>

definition exact_ops :: "(real, real) float_ops" where
  "exact_ops =
     \<lparr>fl_of_nat = real, fl_add = (+), fl_mul = (*), fl_mul_py = (*),
      fl_exp = exp, fl_sin = sin, fl_cos = cos, fl_relu = max 0,
      fl_dropout = (\<lambda>p keep x. if keep \<and> p \<noteq> 1 then x / (1 - p) else 0),
      py_log = ln, py_sqrt = (\<lambda>n. sqrt (real n)), py_div = (\<lambda>c n. c / real n),
      py_neg = uminus\<rparr>"


section \<open>Example layers and modules\<close>













section \<open>Floats with infinities and NaN, without rounding\<close>

text \<open>
  The examples of the attention layer compute with \<open>xfloat\<close>: a finite value, one of
  the two infinities, or NaN, with the IEEE 754 rules for the special values and no
  rounding of the finite ones (signed zeros are one zero). On the values of the
  examples (small integers, halves and the special values) float32 computes the
  same.
\<close>

datatype xfloat = Fin real | PInf | NInf | NaN














section \<open>Example attention modules\<close>


text \<open>The linear layer with the identity as its weight and no bias.\<close>

definition identity_layer :: "xfloat layer3" where
  "identity_layer xs = Inr xs"

text \<open>
  \<^verbatim>\<open>AttentionMechanism(1, 1, 'dot', 1, sharpening_factor=c)\<close> just constructed, with
  identity weights in both linear layers.
\<close>

definition ex_dot_attention :: "xfloat \<Rightarrow> (xfloat, xfloat) AttentionMechanism" where
  "ex_dot_attention c =
     \<lparr>am_attn_type = ''dot'', am_attn_dim = 1, am_sharpening_factor = c,
      am_sigmoid_smoothing = False, am_nheads = 1, am_enc_out_a = None, am_mask = None,
      am_dropout = None, am_w_enc = Some identity_layer, am_w_dec = Some identity_layer,
      am_w_conv = None, am_conv = None, am_v = None, am_training = True\<rparr>"

text \<open>
  The same module after a first call on an encoder output of two positions holding 0
  with \<^verbatim>\<open>x_lens = [2]\<close>: both caches are filled.
\<close>

definition ex_dot_cached :: "(xfloat, xfloat) AttentionMechanism" where
  "ex_dot_cached =
     (ex_dot_attention (Fin 1))
       \<lparr>am_enc_out_a := Some [[[Fin 0], [Fin 0]]], am_mask := Some [[Fin 1, Fin 1]]\<rparr>"




section \<open>Verification: auxiliary facts\<close>

lemma and_then_Inr [simp]: "and_then (Inr v) f = f v"
  by (simp add: and_then_def)

lemma and_then_Inl [simp]: "and_then (Inl e) f = Inl e"
  by (simp add: and_then_def)

lemma and_then_eq_Inr:
  "and_then r f = Inr y \<longleftrightarrow> (\<exists>v. r = Inr v \<and> f v = Inr y)"
  by (cases r) simp_all


lemma collect_map_total:
  "(\<And>x. x \<in> set xs \<Longrightarrow> f x = Inr (g x)) \<Longrightarrow> collect (map f xs) = Inr (map g xs)"
  by (induction xs) simp_all






lemma length_assign_row: "length (assign_row s row v) = length row"
  by (simp add: assign_row_def)

lemma nth_assign_row:
  "j < length row \<Longrightarrow>
   assign_row s row v ! j = (if s \<le> j \<and> (j - s) mod 2 = 0 then v ! ((j - s) div 2) else row ! j)"
  by (simp add: assign_row_def)

lemma length_arange2: "length (arange2 d) = (d + 1) div 2"
  by (simp add: arange2_def)

lemma nth_arange2: "i < (d + 1) div 2 \<Longrightarrow> arange2 d ! i = 2 * i"
  by (simp add: arange2_def)

lemma assign_stride_even:
  "even d \<Longrightarrow> s \<le> 1 \<Longrightarrow> assign_stride s d tgt (length (arange2 d)) val = Inr (map2 (assign_row s) tgt val)"
  by (auto simp: assign_stride_def length_arange2 Let_def elim!: evenE)


section \<open>Verification: the positional-encoding table\<close>

text \<open>
  What the constructor returns for an even, positive \<open>d_model\<close>: the module and, row
  by row, the entries of its table.
\<close>

lemma PositionalEncoding_init_even:
  assumes "truthy ptype" and "even d_model" and "0 < d_model" and "0 \<le> max_len"
    and "0 \<le> dropout" and "dropout \<le> 1"
  shows "\<exists>tbl. PositionalEncoding_init ops d_model dropout ptype max_len =
             Inr \<lparr>pe_d_model = d_model, pe_type = ptype, pe = Some [tbl],
                  pe_dropout = Some dropout, pe_training = True\<rparr>
           \<and> length tbl = nat max_len
           \<and> (\<forall>pos<nat max_len. length (tbl ! pos) = nat d_model
                \<and> (\<forall>i. 2 * i < nat d_model \<longrightarrow>
                      tbl ! pos ! (2 * i) =
                        fl_sin ops (fl_mul ops (fl_of_nat ops pos) (div_term_entry ops (nat d_model) (2 * i)))
                    \<and> tbl ! pos ! (2 * i + 1) =
                        fl_cos ops (fl_mul ops (fl_of_nat ops pos) (div_term_entry ops (nat d_model) (2 * i)))))"
proof -
  define d where "d = nat d_model"
  define n where "n = nat max_len"
  have d: "even d" "0 < d" using assms(2,3) by (simp_all add: d_def even_nat_iff)
  define div_term where "div_term = map (div_term_entry ops d) (arange2 d)"
  define position where "position = map (fl_of_nat ops) [0..<n]"
  define pe0 where "pe0 = replicate n (replicate d (fl_of_nat ops 0))"
  define sins where "sins = map (\<lambda>pos. map (\<lambda>dt. fl_sin ops (fl_mul ops pos dt)) div_term) position"
  define coss where "coss = map (\<lambda>pos. map (\<lambda>dt. fl_cos ops (fl_mul ops pos dt)) div_term) position"
  define pe1 where "pe1 = map2 (assign_row 0) pe0 sins"
  define pe2 where "pe2 = map2 (assign_row 1) pe1 coss"
  have init: "PositionalEncoding_init ops d_model dropout ptype max_len =
      Inr \<lparr>pe_d_model = d_model, pe_type = ptype, pe = Some [pe2],
            pe_dropout = Some dropout, pe_training = True\<rparr>"
    using assms d
    by (simp add: PositionalEncoding_init_def Let_def nn_Dropout_def d_def[symmetric] n_def[symmetric]
        assign_stride_even[where s=0] assign_stride_even[where s="Suc 0"] pe2_def pe1_def pe0_def
        sins_def coss_def div_term_def position_def)
  have len: "length pe2 = n"
    by (simp add: pe2_def pe1_def pe0_def sins_def coss_def position_def)
  have entries: "length (pe2 ! pos) = d
      \<and> (\<forall>i. 2 * i < d \<longrightarrow>
            pe2 ! pos ! (2 * i) = fl_sin ops (fl_mul ops (fl_of_nat ops pos) (div_term_entry ops d (2 * i)))
          \<and> pe2 ! pos ! (2 * i + 1) = fl_cos ops (fl_mul ops (fl_of_nat ops pos) (div_term_entry ops d (2 * i))))"
    if pos: "pos < n" for pos
  proof -
    have r1: "pe1 ! pos = assign_row 0 (replicate d (fl_of_nat ops 0)) (sins ! pos)"
      using pos by (simp add: pe1_def pe0_def sins_def position_def)
    have r2: "pe2 ! pos = assign_row 1 (pe1 ! pos) (coss ! pos)"
      using pos by (simp add: pe2_def pe1_def pe0_def sins_def coss_def position_def)
    have l1: "length (pe1 ! pos) = d" by (simp add: r1 length_assign_row)
    have l2: "length (pe2 ! pos) = d" by (simp add: r2 l1 length_assign_row)
    have ilen: "i < length div_term" if "2 * i < d" for i
      using that by (simp add: div_term_def length_arange2)
    have dt: "div_term ! i = div_term_entry ops d (2 * i)" if "2 * i < d" for i
    proof -
      have "i < (d + 1) div 2" using that by linarith
      then show ?thesis by (simp add: div_term_def length_arange2 nth_arange2)
    qed
    have s: "sins ! pos ! i = fl_sin ops (fl_mul ops (fl_of_nat ops pos) (div_term_entry ops d (2 * i)))"
      if "2 * i < d" for i
      using pos ilen[OF that] dt[OF that] by (simp add: sins_def position_def)
    have c: "coss ! pos ! i = fl_cos ops (fl_mul ops (fl_of_nat ops pos) (div_term_entry ops d (2 * i)))"
      if "2 * i < d" for i
      using pos ilen[OF that] dt[OF that] by (simp add: coss_def position_def)
    have ev: "pe2 ! pos ! (2 * i) = fl_sin ops (fl_mul ops (fl_of_nat ops pos) (div_term_entry ops d (2 * i)))"
      if i: "2 * i < d" for i
    proof -
      have "pe2 ! pos ! (2 * i) = pe1 ! pos ! (2 * i)"
        using i l1 by (simp add: r2 nth_assign_row) presburger
      also have "\<dots> = sins ! pos ! i"
        using i by (simp add: r1 nth_assign_row)
      finally show ?thesis using s[OF i] by simp
    qed
    have od: "pe2 ! pos ! (2 * i + 1) = fl_cos ops (fl_mul ops (fl_of_nat ops pos) (div_term_entry ops d (2 * i)))"
      if i: "2 * i < d" for i
    proof -
      have "2 * i + 1 < d" using i d(1) by (auto elim!: evenE)
      then have "pe2 ! pos ! (2 * i + 1) = coss ! pos ! i"
        using l1 by (simp add: r2 nth_assign_row)
      then show ?thesis using c[OF i] by simp
    qed
    show ?thesis using l2 ev od by blast
  qed
  show ?thesis
    unfolding d_def[symmetric] n_def[symmetric] using init len entries by blast
qed

text \<open>
  Without rounding, the entry of \<^verbatim>\<open>div_term\<close> for the index \<open>k\<close> is
  \<open>10000 ^ (- k / d_model)\<close>: the formula of the claim is the exact-arithmetic reading
  of what the code computes in float32.
\<close>

lemma div_term_entry_exact:
  "0 < d \<Longrightarrow> div_term_entry exact_ops d k = 10000 powr (- real k / real d)"
  by (simp add: div_term_entry_def exact_ops_def powr_def)

text \<open>
  C5 (as amended). For every truthy \<open>pe_type\<close>, every even \<open>d_model > 0\<close>, every
  \<open>max_len \<ge> 0\<close> and every dropout probability in \<open>[0, 1]\<close>, the constructor succeeds
  and registers a buffer \<open>pe\<close> of shape \<open>[1, max_len, d_model]\<close> whose entries are, for
  every \<open>pos < max_len\<close> and every \<open>2i < d_model\<close>,
  \<open>pe[0, pos, 2i] = sin (pos * exp (2i * -(log 10000 / d_model)))\<close> and
  \<open>pe[0, pos, 2i + 1] = cos (pos * exp (2i * -(log 10000 / d_model)))\<close>, each
  operation being the float32 operation of torch (the Python float operation inside
  the inner bracket). The entries are these rounded values; they are not claimed to
  equal the real numbers \<open>sin (pos * 10000 ^ (- 2i / d_model))\<close>, which is what the
  expression denotes without rounding.
\<close>

theorem PositionalEncoding_init_table:
  assumes "truthy ptype" and "even d_model" and "0 < d_model" and "0 \<le> max_len"
    and "0 \<le> dropout" and "dropout \<le> 1"
  shows "\<exists>m tbl. PositionalEncoding_init ops d_model dropout ptype max_len = Inr m
           \<and> pe m = Some [tbl] \<and> length tbl = nat max_len
           \<and> (\<forall>pos<nat max_len. length (tbl ! pos) = nat d_model
                \<and> (\<forall>i. 2 * i < nat d_model \<longrightarrow>
                      tbl ! pos ! (2 * i) =
                        fl_sin ops (fl_mul ops (fl_of_nat ops pos)
                          (fl_exp ops (fl_mul_py ops (fl_of_nat ops (2 * i))
                             (py_neg ops (py_div ops (py_log ops 10000) (nat d_model))))))
                    \<and> tbl ! pos ! (2 * i + 1) =
                        fl_cos ops (fl_mul ops (fl_of_nat ops pos)
                          (fl_exp ops (fl_mul_py ops (fl_of_nat ops (2 * i))
                             (py_neg ops (py_div ops (py_log ops 10000) (nat d_model))))))))"
proof -
  from PositionalEncoding_init_even[OF assms, of ops]
  obtain tbl where
    "PositionalEncoding_init ops d_model dropout ptype max_len =
       Inr \<lparr>pe_d_model = d_model, pe_type = ptype, pe = Some [tbl],
            pe_dropout = Some dropout, pe_training = True\<rparr>"
    and "length tbl = nat max_len"
    and "\<forall>pos<nat max_len. length (tbl ! pos) = nat d_model
                \<and> (\<forall>i. 2 * i < nat d_model \<longrightarrow>
                      tbl ! pos ! (2 * i) =
                        fl_sin ops (fl_mul ops (fl_of_nat ops pos) (div_term_entry ops (nat d_model) (2 * i)))
                    \<and> tbl ! pos ! (2 * i + 1) =
                        fl_cos ops (fl_mul ops (fl_of_nat ops pos) (div_term_entry ops (nat d_model) (2 * i))))"
    by blast
  then show ?thesis
    unfolding div_term_entry_def by (intro exI[of _ "\<lparr>pe_d_model = d_model, pe_type = ptype, pe = Some [tbl],
            pe_dropout = Some dropout, pe_training = True\<rparr>"] exI[of _ tbl]) simp
qed

text \<open>
  The witness: \<open>d_model = 4\<close>, \<open>max_len = 3\<close>, dropout \<open>1/2\<close>, with the entries at
  position 1 and at position 2 written out as the expressions that compute them.
\<close>

theorem PositionalEncoding_init_table_witness:
  "truthy (Some ''add'') \<and> even (4::int) \<and> (0::int) < 4 \<and> (0::int) \<le> 3
   \<and> (0::real) \<le> 1/2 \<and> (1/2::real) \<le> 1
   \<and> (\<exists>m tbl. PositionalEncoding_init symbolic_ops 4 (1/2) (Some ''add'') 3 = Inr m
           \<and> pe m = Some [tbl] \<and> length tbl = 3
           \<and> length (tbl ! 1) = 4
           \<and> tbl ! 1 ! 0 = F32Sin (F32Mul (F32 1) (F32Exp (F32MulPy (F32 0) (PyNeg (PyDiv (PyLog 10000) 4)))))
           \<and> tbl ! 1 ! 1 = F32Cos (F32Mul (F32 1) (F32Exp (F32MulPy (F32 0) (PyNeg (PyDiv (PyLog 10000) 4)))))
           \<and> tbl ! 2 ! 2 = F32Sin (F32Mul (F32 2) (F32Exp (F32MulPy (F32 2) (PyNeg (PyDiv (PyLog 10000) 4)))))
           \<and> tbl ! 2 ! 3 = F32Cos (F32Mul (F32 2) (F32Exp (F32MulPy (F32 2) (PyNeg (PyDiv (PyLog 10000) 4))))))"
proof -
  have t: "truthy (Some ''add'')" by (simp add: truthy_def)
  from PositionalEncoding_init_table [OF t, of 4 3 "1/2" symbolic_ops]
  obtain m tbl where init: "PositionalEncoding_init symbolic_ops 4 (1/2) (Some ''add'') 3 = Inr m"
    and pe: "pe m = Some [tbl]" and len: "length tbl = 3"
    and e: "\<forall>pos<3. length (tbl ! pos) = 4
              \<and> (\<forall>i. 2 * i < 4 \<longrightarrow>
                    tbl ! pos ! (2 * i) =
                      F32Sin (F32Mul (F32 pos) (F32Exp (F32MulPy (F32 (2 * i)) (PyNeg (PyDiv (PyLog 10000) 4)))))
                  \<and> tbl ! pos ! (2 * i + 1) =
                      F32Cos (F32Mul (F32 pos) (F32Exp (F32MulPy (F32 (2 * i)) (PyNeg (PyDiv (PyLog 10000) 4))))))"
    by (auto simp: symbolic_ops_def)
  from e have e1: "length (tbl ! 1) = 4" by simp
  from e have a: "\<forall>i. 2 * i < 4 \<longrightarrow>
                    tbl ! 1 ! (2 * i) =
                      F32Sin (F32Mul (F32 1) (F32Exp (F32MulPy (F32 (2 * i)) (PyNeg (PyDiv (PyLog 10000) 4)))))
                  \<and> tbl ! 1 ! (2 * i + 1) =
                      F32Cos (F32Mul (F32 1) (F32Exp (F32MulPy (F32 (2 * i)) (PyNeg (PyDiv (PyLog 10000) 4)))))"
    by simp
  from e have b: "\<forall>i. 2 * i < 4 \<longrightarrow>
                    tbl ! 2 ! (2 * i) =
                      F32Sin (F32Mul (F32 2) (F32Exp (F32MulPy (F32 (2 * i)) (PyNeg (PyDiv (PyLog 10000) 4)))))
                  \<and> tbl ! 2 ! (2 * i + 1) =
                      F32Cos (F32Mul (F32 2) (F32Exp (F32MulPy (F32 (2 * i)) (PyNeg (PyDiv (PyLog 10000) 4)))))"
    by simp
  from a[rule_format, of 0] b[rule_format, of 1] t init pe len e1
  show ?thesis by simp
qed

text \<open>
  The claim as stated fails for an odd \<open>d_model\<close> above 1: the cosine values have
  \<open>(d_model + 1) div 2\<close> columns, the slice \<^verbatim>\<open>pe[:, 1::2]\<close> has one less, and the
  assignment raises. No module and no buffer come into being.
\<close>

theorem PositionalEncoding_init_odd_counterexample:
  "truthy (Some ''add'') \<and> PositionalEncoding_init symbolic_ops 3 0 (Some ''add'') 1 = Inl RuntimeError"
  by (simp add: PositionalEncoding_init_def truthy_def Let_def assign_stride_def arange2_def)


section \<open>Verification: the encoder block\<close>




section \<open>Verification: the causal mask of the decoder block\<close>



text \<open>
  The decoder block hands the attention layer exactly the mask that
  \<open>TransformerDecoderBlock_yy_mask\<close> returns, and calls it only when that mask was
  built and \<open>attn_type\<close> is not \<^verbatim>\<open>'average'\<close>.
\<close>

lemma TransformerDecoderBlock_forward_uses_yy_mask:
  "TransformerDecoderBlock_forward ops attn make_pad_mask blk noise1 noise2 noise_ff noise3 ys ylens xs xlens =
     (case TransformerDecoderBlock_yy_mask make_pad_mask (dec_n_heads blk) (size0 ys) (size1 ys) ylens of
        Inl e \<Rightarrow> (Inl e, blk)
      | Inr yy_mask \<Rightarrow>
          if dec_attn_type blk = ''average'' then (Inl NotImplementedError, blk)
          else
            (case dec_norm1 blk ys of
               Inl e \<Rightarrow> (Inl e, blk\<lparr>dec_self_attn := mha_reset attn (dec_self_attn blk)\<rparr>)
             | Inr n1 \<Rightarrow>
                 (case mha_forward attn (mha_reset attn (dec_self_attn blk)) n1 n1 n1 yy_mask of
                    (Inl e, st2) \<Rightarrow> (Inl e, blk\<lparr>dec_self_attn := st2\<rparr>)
                  | (Inr (a, yy_aw), st2) \<Rightarrow>
                      (case tadd3 (fl_add ops)
                              (Dropout_forward ops (dec_dropout1 blk) (dec_training blk) noise1 a) ys of
                         Inl e \<Rightarrow> (Inl e, blk\<lparr>dec_self_attn := st2\<rparr>)
                       | Inr ys1 \<Rightarrow>
                           (case TransformerDecoderBlock_src ops attn make_pad_mask (blk\<lparr>dec_self_attn := st2\<rparr>)
                                   noise2 (size0 ys) (size1 ys) ys1 ylens xs xlens of
                              (Inl e, blk3) \<Rightarrow> (Inl e, blk3)
                            | (Inr (ys2, xy_aw), blk3) \<Rightarrow>
                                (and_then (dec_norm3 blk ys2)
                                   (\<lambda>n3. and_then (PositionwiseFeedForward_forward ops (dec_feed_forward blk) noise_ff n3)
                                   (\<lambda>f. and_then (tadd3 (fl_add ops)
                                                    (Dropout_forward ops (dec_dropout3 blk) (dec_training blk) noise3 f) ys2)
                                   (\<lambda>ys3. Inr (ys3, yy_aw, xy_aw)))),
                                 blk3))))))"
  by (simp add: TransformerDecoderBlock_forward_def Let_def split: sum.split prod.split)




section \<open>Verification: the position-wise feed-forward sublayer\<close>




text \<open>The constructor makes a map from \<open>d_model\<close> to \<open>d_ff\<close> and one back.\<close>

lemma PositionwiseFeedForward_init_sizes:
  "PositionwiseFeedForward_init d_model d_ff dropout f1 f2 = Inr m \<Longrightarrow>
   in_features (w_1 m) = nat d_model \<and> out_features (w_1 m) = nat d_ff
   \<and> in_features (w_2 m) = nat d_ff \<and> out_features (w_2 m) = nat d_model
   \<and> lin_map (w_1 m) = f1 \<and> lin_map (w_2 m) = f2 \<and> ff_dropout m = dropout"
  by (auto simp: PositionwiseFeedForward_init_def nn_Linear_def nn_Dropout_def and_then_eq_Inr
      split: if_splits)




section \<open>Verification: \<^verbatim>\<open>PositionalEncoding.forward\<close>\<close>

text \<open>The three branches of \<^verbatim>\<open>forward\<close>, for every input and every outcome.\<close>

lemma PositionalEncoding_forward_falsy:
  "0 \<le> pe_d_model m \<Longrightarrow> \<not> truthy (pe_type m) \<Longrightarrow>
   PositionalEncoding_forward ops m noise xs = Inr (scale3 ops (py_sqrt ops (nat (pe_d_model m))) xs)"
  by (simp add: PositionalEncoding_forward_def Let_def)

lemma PositionalEncoding_forward_add:
  "0 \<le> pe_d_model m \<Longrightarrow> pe_type m = Some ''add'' \<Longrightarrow> pe m = Some tbl \<Longrightarrow> pe_dropout m = Some p \<Longrightarrow>
   PositionalEncoding_forward ops m noise xs =
     and_then (tadd3 (fl_add ops) (scale3 ops (py_sqrt ops (nat (pe_d_model m))) xs)
                 (pe_slice (size1 xs) tbl))
       (\<lambda>ys. Inr (Dropout_forward ops p (pe_training m) noise ys))"
  by (simp add: PositionalEncoding_forward_def Let_def truthy_def scale3_def size1_def split: list.splits)





section \<open>Verification: the caches of the attention layer\<close>

lemma mask_loop_None:
  "mask_loop ops enc_time x_lens bsl msk = (None, msk') \<Longrightarrow> \<forall>b\<in>set bsl. b < length x_lens"
  by (induction bsl arbitrary: msk) (auto split: if_splits)









lemma nth_padding_row:
  "0 \<le> x \<Longrightarrow> t < enc_time \<Longrightarrow>
   padding_row ops enc_time x ! t = (if int t < x then at_one ops else at_zero ops)"
  by (auto simp: padding_row_def slice_start_def)

lemma length_padding_row: "length (padding_row ops enc_time x) = enc_time"
  by (simp add: padding_row_def)






section \<open>Verification: the unsupported variants\<close>


text \<open>The constructor of the attention layer refuses the three types as well.\<close>

lemma AttentionMechanism_init_luong:
  assumes "atype = ''luong_dot'' \<or> atype = ''luong_general'' \<or> atype = ''luong_concat''"
    and "p \<le> 1"
  shows "AttentionMechanism_init new_linear new_conv enc_nunits dec_nunits atype adim sharpening
           smoothing conv_out_channels conv_kernel_size p = Inl NotImplementedError"
  using assms by (auto simp: AttentionMechanism_init_def nn_Dropout_def Let_def)




end
